theory Spec2Isabelle
  imports Main
begin

section \<open>Bytes, strings and errors\<close>

text \<open>
  Go's \<^verbatim>\<open>string\<close> and \<^verbatim>\<open>[]byte\<close> are both sequences of bytes; the conversion
  \<^verbatim>\<open>string(data)\<close> keeps every byte. Both are \<open>char list\<close> here (a \<open>char\<close> is one
  byte), and \<open>byte c\<close> is the numeric value of a byte.
\<close>

type_synonym bytes = "char list"

abbreviation byte :: "char \<Rightarrow> nat" where
  "byte c \<equiv> of_char c"

definition dq :: char where
  "dq = CHR 0x22"

definition bsl :: char where
  "bsl = CHR 0x5C"

text \<open>The three JSend status tags of the package (\<^verbatim>\<open>jsend.go\<close>, constants).\<close>

definition StatusSuccess :: string where
  "StatusSuccess = ''success''"

definition StatusError :: string where
  "StatusError = ''error''"

definition StatusFail :: string where
  "StatusFail = ''fail''"

text \<open>
  The package's three error values. \<open>ErrOther\<close> stands for any error that is not one of
  the package's own, such as an I/O error returned by the wrapped response writer.
\<close>

datatype error = ErrInvalidRawJSON | ErrJSONEncode | ErrWrittenAlready | ErrOther string

section \<open>The JSON codec (Go's \<^verbatim>\<open>encoding/json\<close>)\<close>

text \<open>
  The package calls \<^verbatim>\<open>json.Marshal\<close> of the standard library. The library is not part
  of the repository; what follows is a model of the parts of it that the package reaches:
  the encoding of Go strings, the syntax check and compaction that \<^verbatim>\<open>json.Marshal\<close>
  applies to a \<^verbatim>\<open>json.RawMessage\<close>, and a decoder.
\<close>

subsection \<open>UTF-8\<close>

text \<open>
  \<open>utf8_size bs\<close> is the length of the well-formed UTF-8 sequence of a code point beyond
  ASCII at the head of \<open>bs\<close>, and \<open>0\<close> when the head is not such a sequence (where
  \<^verbatim>\<open>utf8.DecodeRune\<close> answers \<^verbatim>\<open>RuneError\<close> with size 1).
\<close>

definition cont :: "char \<Rightarrow> bool" where
  "cont c \<longleftrightarrow> 0x80 \<le> byte c \<and> byte c \<le> 0xBF"

definition second_ok :: "char \<Rightarrow> char \<Rightarrow> bool" where
  "second_ok c0 c1 \<longleftrightarrow>
     (if byte c0 = 0xE0 then 0xA0 \<le> byte c1 \<and> byte c1 \<le> 0xBF
      else if byte c0 = 0xED then 0x80 \<le> byte c1 \<and> byte c1 \<le> 0x9F
      else if byte c0 = 0xF0 then 0x90 \<le> byte c1 \<and> byte c1 \<le> 0xBF
      else if byte c0 = 0xF4 then 0x80 \<le> byte c1 \<and> byte c1 \<le> 0x8F
      else cont c1)"

fun utf8_size :: "bytes \<Rightarrow> nat" where
  "utf8_size [] = 0"
| "utf8_size (c # cs) =
     (if 0xC2 \<le> byte c \<and> byte c \<le> 0xDF then
        (case cs of c1 # _ \<Rightarrow> if second_ok c c1 then 2 else 0 | _ \<Rightarrow> 0)
      else if 0xE0 \<le> byte c \<and> byte c \<le> 0xEF then
        (case cs of c1 # c2 # _ \<Rightarrow> if second_ok c c1 \<and> cont c2 then 3 else 0 | _ \<Rightarrow> 0)
      else if 0xF0 \<le> byte c \<and> byte c \<le> 0xF4 then
        (case cs of c1 # c2 # c3 # _ \<Rightarrow>
           if second_ok c c1 \<and> cont c2 \<and> cont c3 then 4 else 0 | _ \<Rightarrow> 0)
      else 0)"

text \<open>A byte string is valid UTF-8 when it is a sequence of ASCII bytes and well-formed
  multi-byte sequences.\<close>

fun utf8_valid :: "bytes \<Rightarrow> bool" where
  "utf8_valid [] = True"
| "utf8_valid (c # cs) =
     (if byte c < 0x80 then utf8_valid cs
      else utf8_size (c # cs) \<noteq> 0 \<and> utf8_valid (drop (utf8_size (c # cs) - 1) cs))"

subsection \<open>Encoding a Go string\<close>

definition hex :: "nat \<Rightarrow> char" where
  "hex n = ''0123456789abcdef'' ! n"

text \<open>\<^verbatim>\<open>htmlSafeSet\<close>: the ASCII bytes that are written as they are.\<close>

definition htmlSafe :: "char \<Rightarrow> bool" where
  "htmlSafe c \<longleftrightarrow> 0x20 \<le> byte c \<and> byte c < 0x80 \<and> c \<noteq> dq \<and> c \<noteq> bsl
     \<and> c \<noteq> CHR ''<'' \<and> c \<noteq> CHR ''>'' \<and> c \<noteq> CHR ''&''"

definition u_escape :: "nat \<Rightarrow> bytes" where
  "u_escape b = [bsl, CHR ''u'', CHR ''0'', CHR ''0'', hex (b div 16), hex (b mod 16)]"

definition u2028 :: bytes where
  "u2028 = [CHR 0xE2, CHR 0x80, CHR 0xA8]"

definition u2029 :: bytes where
  "u2029 = [CHR 0xE2, CHR 0x80, CHR 0xA9]"

text \<open>
  The body of \<^verbatim>\<open>encodeState.string\<close> with HTML escaping on, as \<^verbatim>\<open>json.Marshal\<close> runs
  it: safe ASCII is copied; the quote and the backslash get a backslash; newline, carriage
  return and tab get their short escapes; any other ASCII byte becomes \<^verbatim>\<open>\u00XX\<close>; an
  invalid UTF-8 byte becomes the escape of U+FFFD; U+2028 and U+2029 are escaped; any other
  well-formed sequence is copied.
\<close>

fun string_body :: "bytes \<Rightarrow> bytes" where
  "string_body [] = []"
| "string_body (c # cs) =
     (if byte c < 0x80 then
        (if htmlSafe c then c # string_body cs
         else if c = bsl \<or> c = dq then bsl # c # string_body cs
         else if c = CHR 0x0A then bsl # CHR ''n'' # string_body cs
         else if c = CHR 0x0D then bsl # CHR ''r'' # string_body cs
         else if c = CHR 0x09 then bsl # CHR ''t'' # string_body cs
         else u_escape (byte c) @ string_body cs)
      else if utf8_size (c # cs) = 0 then
        [bsl, CHR ''u'', CHR ''f'', CHR ''f'', CHR ''f'', CHR ''d''] @ string_body cs
      else if take 3 (c # cs) = u2028 then
        [bsl, CHR ''u'', CHR ''2'', CHR ''0'', CHR ''2'', CHR ''8''] @ string_body (drop 2 cs)
      else if take 3 (c # cs) = u2029 then
        [bsl, CHR ''u'', CHR ''2'', CHR ''0'', CHR ''2'', CHR ''9''] @ string_body (drop 2 cs)
      else take (utf8_size (c # cs)) (c # cs)
             @ string_body (drop (utf8_size (c # cs) - 1) cs))"

definition encodeString :: "string \<Rightarrow> bytes" where
  "encodeString s = dq # string_body s @ [dq]"

subsection \<open>Scanning JSON text\<close>

text \<open>The scanner's \<^verbatim>\<open>isSpace\<close>: space, tab, carriage return, newline.\<close>

definition isSpace :: "char \<Rightarrow> bool" where
  "isSpace c \<longleftrightarrow> c = CHR '' '' \<or> c = CHR 0x09 \<or> c = CHR 0x0D \<or> c = CHR 0x0A"

definition skip_space :: "bytes \<Rightarrow> bytes" where
  "skip_space cs = dropWhile isSpace cs"

definition is_digit :: "char \<Rightarrow> bool" where
  "is_digit c \<longleftrightarrow> 0x30 \<le> byte c \<and> byte c \<le> 0x39"

definition hexval :: "char \<Rightarrow> nat option" where
  "hexval c =
     (if 0x30 \<le> byte c \<and> byte c \<le> 0x39 then Some (byte c - 0x30)
      else if 0x61 \<le> byte c \<and> byte c \<le> 0x66 then Some (byte c - 0x61 + 10)
      else if 0x41 \<le> byte c \<and> byte c \<le> 0x46 then Some (byte c - 0x41 + 10)
      else None)"

definition is_hex :: "char \<Rightarrow> bool" where
  "is_hex c \<longleftrightarrow> hexval c \<noteq> None"

text \<open>
  A string literal, read from behind its opening quote up to its closing quote: the
  scanner accepts any byte from \<open>0x20\<close> on, the escapes
  \<^verbatim>\<open>\" \\ \/ \b \f \n \r \t\<close> and \<^verbatim>\<open>\u\<close> with four hexadecimal digits. The result is
  the text between the quotes and the input behind the closing quote.
\<close>

fun scan_string :: "bytes \<Rightarrow> (bytes \<times> bytes) option" where
  "scan_string [] = None"
| "scan_string (c # cs) =
     (if c = dq then Some ([], cs)
      else if c = bsl then
        (case cs of
           [] \<Rightarrow> None
         | e # cs1 \<Rightarrow>
             if e = dq \<or> e = bsl \<or> e = CHR ''/'' \<or> e = CHR ''b'' \<or> e = CHR ''f''
                \<or> e = CHR ''n'' \<or> e = CHR ''r'' \<or> e = CHR ''t''
             then map_option (\<lambda>(l, r). (c # e # l, r)) (scan_string cs1)
             else if e = CHR ''u'' \<and> 4 \<le> length cs1 \<and> list_all is_hex (take 4 cs1)
             then map_option (\<lambda>(l, r). (c # e # take 4 cs1 @ l, r)) (scan_string (drop 4 cs1))
             else None)
      else if byte c < 0x20 then None
      else map_option (\<lambda>(l, r). (c # l, r)) (scan_string cs))"

text \<open>
  The escaping that \<^verbatim>\<open>compact\<close> applies when \<^verbatim>\<open>json.Marshal\<close> copies the output of a
  \<^verbatim>\<open>Marshaler\<close>: \<^verbatim>\<open><\<close>, \<^verbatim>\<open>>\<close> and \<^verbatim>\<open>&\<close> become \<^verbatim>\<open>\u00XX\<close>, and the UTF-8 forms of
  U+2028 and U+2029 become their six-byte escapes. In valid JSON these bytes occur in
  string literals only.
\<close>

fun html_escape :: "bytes \<Rightarrow> bytes" where
  "html_escape [] = []"
| "html_escape (c # cs) =
     (if c = CHR ''<'' \<or> c = CHR ''>'' \<or> c = CHR ''&'' then u_escape (byte c) @ html_escape cs
      else if take 3 (c # cs) = u2028 then
        [bsl, CHR ''u'', CHR ''2'', CHR ''0'', CHR ''2'', CHR ''8''] @ html_escape (drop 2 cs)
      else if take 3 (c # cs) = u2029 then
        [bsl, CHR ''u'', CHR ''2'', CHR ''0'', CHR ''2'', CHR ''9''] @ html_escape (drop 2 cs)
      else c # html_escape cs)"

text \<open>
  A number literal at the head of the input, by the grammar of the scanner: an optional
  minus sign, \<open>0\<close> or a run of digits that starts with \<open>1\<close> to \<open>9\<close>, an optional fraction
  (a dot and at least one digit), an optional exponent (\<open>e\<close> or \<open>E\<close>, an optional sign and
  at least one digit). Each part answers the text it read and the input behind it.
\<close>

definition scan_sign :: "bytes \<Rightarrow> bytes \<times> bytes" where
  "scan_sign cs = (case cs of c # r \<Rightarrow> if c = CHR ''-'' then ([c], r) else ([], cs) | [] \<Rightarrow> ([], cs))"

definition scan_int :: "bytes \<Rightarrow> (bytes \<times> bytes) option" where
  "scan_int cs =
     (case cs of
        [] \<Rightarrow> None
      | c # r \<Rightarrow>
          if c = CHR ''0'' then Some ([c], r)
          else if is_digit c then Some (c # takeWhile is_digit r, dropWhile is_digit r)
          else None)"

definition scan_frac :: "bytes \<Rightarrow> (bytes \<times> bytes) option" where
  "scan_frac cs =
     (case cs of
        [] \<Rightarrow> Some ([], cs)
      | c # r \<Rightarrow>
          if c = CHR ''.'' then
            (if takeWhile is_digit r = [] then None
             else Some (c # takeWhile is_digit r, dropWhile is_digit r))
          else Some ([], cs))"

definition scan_exp_sign :: "bytes \<Rightarrow> bytes \<times> bytes" where
  "scan_exp_sign cs =
     (case cs of c # r \<Rightarrow> if c = CHR ''+'' \<or> c = CHR ''-'' then ([c], r) else ([], cs)
      | [] \<Rightarrow> ([], cs))"

definition scan_exp :: "bytes \<Rightarrow> (bytes \<times> bytes) option" where
  "scan_exp cs =
     (case cs of
        [] \<Rightarrow> Some ([], cs)
      | c # r \<Rightarrow>
          if c = CHR ''e'' \<or> c = CHR ''E'' then
            (case scan_exp_sign r of
               (sg, r1) \<Rightarrow>
                 if takeWhile is_digit r1 = [] then None
                 else Some (c # sg @ takeWhile is_digit r1, dropWhile is_digit r1))
          else Some ([], cs))"

definition scan_number :: "bytes \<Rightarrow> (bytes \<times> bytes) option" where
  "scan_number cs =
     (case scan_sign cs of
        (sg, cs1) \<Rightarrow>
          (case scan_int cs1 of
             None \<Rightarrow> None
           | Some (ip, cs2) \<Rightarrow>
               (case scan_frac cs2 of
                  None \<Rightarrow> None
                | Some (fp, cs3) \<Rightarrow>
                    (case scan_exp cs3 of
                       None \<Rightarrow> None
                     | Some (ep, cs4) \<Rightarrow> Some (sg @ ip @ fp @ ep, cs4)))))"

text \<open>\<^verbatim>\<open>isValidNumber\<close>: the whole text is one number literal.\<close>

definition isValidNumber :: "string \<Rightarrow> bool" where
  "isValidNumber s \<longleftrightarrow> scan_number s = Some (s, [])"

subsection \<open>Decoding a string literal\<close>

definition getu4 :: "bytes \<Rightarrow> nat option" where
  "getu4 s =
     (case s of
        b # u # h1 # h2 # h3 # h4 # _ \<Rightarrow>
          if b = bsl \<and> u = CHR ''u'' then
            (case (hexval h1, hexval h2, hexval h3, hexval h4) of
               (Some x1, Some x2, Some x3, Some x4) \<Rightarrow> Some (((x1 * 16 + x2) * 16 + x3) * 16 + x4)
             | _ \<Rightarrow> None)
          else None
      | _ \<Rightarrow> None)"

definition replacement :: bytes where
  "replacement = [CHR 0xEF, CHR 0xBF, CHR 0xBD]"

text \<open>\<^verbatim>\<open>utf8.EncodeRune\<close>: surrogates and values beyond U+10FFFF become U+FFFD.\<close>

definition utf8_encode :: "nat \<Rightarrow> bytes" where
  "utf8_encode r =
     (if r < 0x80 then [char_of r]
      else if r < 0x800 then [char_of (0xC0 + r div 64), char_of (0x80 + r mod 64)]
      else if (0xD800 \<le> r \<and> r < 0xE000) \<or> 0x10FFFF < r then replacement
      else if r < 0x10000 then
        [char_of (0xE0 + r div 4096), char_of (0x80 + (r div 64) mod 64), char_of (0x80 + r mod 64)]
      else
        [char_of (0xF0 + r div 262144), char_of (0x80 + (r div 4096) mod 64),
         char_of (0x80 + (r div 64) mod 64), char_of (0x80 + r mod 64)])"

text \<open>
  \<^verbatim>\<open>unquote\<close>: the Go string that the text between the quotes of a literal stands for.
  A pair of \<^verbatim>\<open>\u\<close> escapes that is a UTF-16 surrogate pair is one code point; a lone
  surrogate and an invalid UTF-8 byte become U+FFFD.
\<close>

fun unquote :: "bytes \<Rightarrow> bytes option" where
  "unquote [] = Some []"
| "unquote (c # cs) =
     (if c = bsl then
        (case cs of
           [] \<Rightarrow> None
         | e # cs1 \<Rightarrow>
             if e = dq \<or> e = bsl \<or> e = CHR ''/'' then map_option ((#) e) (unquote cs1)
             else if e = CHR ''b'' then map_option ((#) (CHR 0x08)) (unquote cs1)
             else if e = CHR ''f'' then map_option ((#) (CHR 0x0C)) (unquote cs1)
             else if e = CHR ''n'' then map_option ((#) (CHR 0x0A)) (unquote cs1)
             else if e = CHR ''r'' then map_option ((#) (CHR 0x0D)) (unquote cs1)
             else if e = CHR ''t'' then map_option ((#) (CHR 0x09)) (unquote cs1)
             else if e = CHR ''u'' then
               (case getu4 (c # cs) of
                  None \<Rightarrow> None
                | Some r \<Rightarrow>
                    (case (if 0xD800 \<le> r \<and> r < 0xDC00 then getu4 (drop 5 cs) else None) of
                       Some r1 \<Rightarrow>
                         if 0xDC00 \<le> r1 \<and> r1 < 0xE000
                         then map_option
                                ((@) (utf8_encode (0x10000 + (r - 0xD800) * 1024 + (r1 - 0xDC00))))
                                (unquote (drop 11 cs))
                         else map_option ((@) (utf8_encode r)) (unquote (drop 5 cs))
                     | None \<Rightarrow> map_option ((@) (utf8_encode r)) (unquote (drop 5 cs))))
             else None)
      else if c = dq \<or> byte c < 0x20 then None
      else if byte c < 0x80 then map_option ((#) c) (unquote cs)
      else if utf8_size (c # cs) = 0 then map_option ((@) replacement) (unquote cs)
      else map_option ((@) (take (utf8_size (c # cs)) (c # cs)))
             (unquote (drop (utf8_size (c # cs) - 1) cs)))"

subsection \<open>JSON values\<close>

text \<open>
  The Go values that \<^verbatim>\<open>json.Unmarshal\<close> produces in an \<^verbatim>\<open>interface{}\<close>: \<^verbatim>\<open>nil\<close>,
  \<^verbatim>\<open>bool\<close>, \<^verbatim>\<open>json.Number\<close> (the text of the number), \<^verbatim>\<open>string\<close>, \<^verbatim>\<open>[]interface{}\<close>
  and \<^verbatim>\<open>map[string]interface{}\<close>. A map is the list of its entries in the order in
  which they stand in the JSON text; \<^verbatim>\<open>json.Marshal\<close> writes a map in the order of its
  keys, so a map that is marshalled is given by its entries in that order.
\<close>

datatype json = JNull | JBool bool | JNumber string | JString string
  | JArray "json list" | JObject "(string \<times> json) list"

datatype frame = InArray "json list" | InObject "(string \<times> json) list" string

text \<open>
  An object key with its colon: the key, its compacted text and the input behind the colon.
\<close>

definition read_key :: "bytes \<Rightarrow> (string \<times> bytes \<times> bytes) option" where
  "read_key cs =
     (case skip_space cs of
        [] \<Rightarrow> None
      | c # cs1 \<Rightarrow>
          if c = dq then
            (case scan_string cs1 of
               None \<Rightarrow> None
             | Some (lit, cs2) \<Rightarrow>
                 (case unquote lit of
                    None \<Rightarrow> None
                  | Some k \<Rightarrow>
                      (case skip_space cs2 of
                         [] \<Rightarrow> None
                       | d # cs3 \<Rightarrow>
                           if d = CHR '':'' then Some (k, dq # html_escape lit @ [dq, CHR '':''], cs3)
                           else None)))
          else None)"

text \<open>Every scanning step consumes input; the reader below terminates by that.\<close>

lemma skip_space_length: "length (skip_space cs) \<le> length cs"
  by (simp add: skip_space_def length_dropWhile_le)

lemma skip_space_Cons_length: "skip_space cs = c # cs1 \<Longrightarrow> length cs1 < length cs"
  using skip_space_length [of cs] by simp

lemma scan_string_length: "scan_string cs = Some (lit, r) \<Longrightarrow> length r < length cs"
proof (induction cs arbitrary: lit r rule: scan_string.induct)
  case 1
  then show ?case by simp
next
  case (2 c cs)
  show ?case
  proof (cases "c = dq")
    case True
    with "2.prems" show ?thesis by simp
  next
    case ndq: False
    show ?thesis
    proof (cases "c = bsl")
      case False
      with ndq "2.prems" obtain l where "scan_string cs = Some (l, r)"
        by (auto split: if_splits)
      with "2.IH"(3) [OF ndq False] False ndq "2.prems" show ?thesis
        by (fastforce split: if_splits)
    next
      case True
      then obtain e cs1 where cs: "cs = e # cs1"
        using "2.prems" ndq by (cases cs) auto
      show ?thesis
      proof (cases "e = dq \<or> e = bsl \<or> e = CHR ''/'' \<or> e = CHR ''b'' \<or> e = CHR ''f''
                \<or> e = CHR ''n'' \<or> e = CHR ''r'' \<or> e = CHR ''t''")
        case simple: True
        with "2.prems" ndq True cs obtain l where "scan_string cs1 = Some (l, r)"
          by auto
        with "2.IH"(1) [OF ndq True cs simple] cs show ?thesis by fastforce
      next
        case nsimple: False
        with "2.prems" ndq True cs
        have u: "e = CHR ''u'' \<and> 4 \<le> length cs1 \<and> list_all is_hex (take 4 cs1)"
          by (auto split: if_splits)
        with "2.prems" ndq True cs nsimple obtain l where "scan_string (drop 4 cs1) = Some (l, r)"
          by auto
        with "2.IH"(2) [OF ndq True cs nsimple u] cs show ?thesis by fastforce
      qed
    qed
  qed
qed

lemma read_key_length: "read_key cs = Some (k, txt, r) \<Longrightarrow> length r < length cs"
  unfolding read_key_def
  by (auto split: list.splits option.splits if_splits
      dest!: skip_space_Cons_length scan_string_length)

lemma scan_sign_length: "scan_sign cs = (sg, r) \<Longrightarrow> length r \<le> length cs"
  by (auto simp: scan_sign_def split: list.splits if_splits)

lemma scan_int_length: "scan_int cs = Some (ip, r) \<Longrightarrow> length r < length cs"
  by (auto simp: scan_int_def le_imp_less_Suc length_dropWhile_le split: list.splits if_splits)

lemma scan_frac_length: "scan_frac cs = Some (fp, r) \<Longrightarrow> length r \<le> length cs"
  by (auto simp: scan_frac_def le_SucI length_dropWhile_le split: list.splits if_splits)

lemma scan_exp_sign_length: "scan_exp_sign cs = (sg, r) \<Longrightarrow> length r \<le> length cs"
  by (auto simp: scan_exp_sign_def split: list.splits if_splits)

lemma scan_exp_length: "scan_exp cs = Some (ep, r) \<Longrightarrow> length r \<le> length cs"
proof -
  assume a: "scan_exp cs = Some (ep, r)"
  show ?thesis
  proof (cases cs)
    case Nil
    with a show ?thesis by (simp add: scan_exp_def)
  next
    case (Cons c cs1)
    show ?thesis
    proof (cases "c = CHR ''e'' \<or> c = CHR ''E''")
      case False
      with a Cons show ?thesis by (auto simp: scan_exp_def)
    next
      case True
      obtain sg r1 where sg: "scan_exp_sign cs1 = (sg, r1)" by (cases "scan_exp_sign cs1")
      with a Cons True have "r = dropWhile is_digit r1"
        by (auto simp: scan_exp_def split: if_splits)
      moreover have "length (dropWhile is_digit r1) \<le> length r1" by (rule length_dropWhile_le)
      moreover have "length r1 \<le> length cs1" using sg by (rule scan_exp_sign_length)
      ultimately show ?thesis using Cons by simp
    qed
  qed
qed

lemma scan_number_length: "scan_number cs = Some (lit, r) \<Longrightarrow> length r < length cs"
proof -
  assume a: "scan_number cs = Some (lit, r)"
  obtain sg cs1 where 1: "scan_sign cs = (sg, cs1)" by (cases "scan_sign cs")
  with a obtain ip cs2 where 2: "scan_int cs1 = Some (ip, cs2)"
    by (auto simp: scan_number_def split: option.splits)
  with a 1 obtain fp cs3 where 3: "scan_frac cs2 = Some (fp, cs3)"
    by (auto simp: scan_number_def split: option.splits)
  with a 1 2 have 4: "\<exists>ep. scan_exp cs3 = Some (ep, r)"
    by (auto simp: scan_number_def split: option.splits)
  from 1 2 3 4 show ?thesis
    using scan_sign_length scan_int_length scan_frac_length scan_exp_length
    by (metis le_trans not_le)
qed

text \<open>
  One pass over a JSON text, as the scanner of \<^verbatim>\<open>encoding/json\<close> drives it: \<open>read_value\<close>
  expects a value, \<open>read_end\<close> has just read the value \<open>v\<close>. The stack holds the arrays and
  objects that are open, with what has been read of them. The pass answers \<open>None\<close> on a
  syntax error, and otherwise the compacted text (no white space between tokens, string
  literals escaped by \<open>html_escape\<close>) together with the decoded value.
\<close>

function read_value :: "frame list \<Rightarrow> bytes \<Rightarrow> bytes \<Rightarrow> (bytes \<times> json) option"
  and read_end :: "json \<Rightarrow> frame list \<Rightarrow> bytes \<Rightarrow> bytes \<Rightarrow> (bytes \<times> json) option" where
  "read_value st out cs =
     (case skip_space cs of
        [] \<Rightarrow> None
      | c # cs1 \<Rightarrow>
          if c = CHR ''{'' then
            (case skip_space cs1 of
               [] \<Rightarrow> None
             | d # cs2 \<Rightarrow>
                 if d = CHR ''}'' then read_end (JObject []) st (out @ ''{}'') cs2
                 else
                   (case read_key cs1 of
                      None \<Rightarrow> None
                    | Some (k, txt, cs3) \<Rightarrow>
                        read_value (InObject [] k # st) (out @ CHR ''{'' # txt) cs3))
          else if c = CHR ''['' then
            (case skip_space cs1 of
               [] \<Rightarrow> None
             | d # cs2 \<Rightarrow>
                 if d = CHR '']'' then read_end (JArray []) st (out @ ''[]'') cs2
                 else read_value (InArray [] # st) (out @ ''['') cs1)
          else if c = dq then
            (case scan_string cs1 of
               None \<Rightarrow> None
             | Some (lit, cs2) \<Rightarrow>
                 (case unquote lit of
                    None \<Rightarrow> None
                  | Some s \<Rightarrow> read_end (JString s) st (out @ dq # html_escape lit @ [dq]) cs2))
          else if take 4 (c # cs1) = ''true'' then
            read_end (JBool True) st (out @ ''true'') (drop 3 cs1)
          else if take 5 (c # cs1) = ''false'' then
            read_end (JBool False) st (out @ ''false'') (drop 4 cs1)
          else if take 4 (c # cs1) = ''null'' then
            read_end JNull st (out @ ''null'') (drop 3 cs1)
          else
            (case scan_number (c # cs1) of
               None \<Rightarrow> None
             | Some (lit, cs2) \<Rightarrow> read_end (JNumber lit) st (out @ lit) cs2))"
| "read_end v st out cs =
     (case st of
        [] \<Rightarrow> if skip_space cs = [] then Some (out, v) else None
      | InArray vs # st' \<Rightarrow>
          (case skip_space cs of
             [] \<Rightarrow> None
           | c # cs1 \<Rightarrow>
               if c = CHR '','' then read_value (InArray (vs @ [v]) # st') (out @ '','') cs1
               else if c = CHR '']'' then read_end (JArray (vs @ [v])) st' (out @ '']'') cs1
               else None)
      | InObject fs k # st' \<Rightarrow>
          (case skip_space cs of
             [] \<Rightarrow> None
           | c # cs1 \<Rightarrow>
               if c = CHR '','' then
                 (case read_key cs1 of
                    None \<Rightarrow> None
                  | Some (k', txt, cs2) \<Rightarrow>
                      read_value (InObject (fs @ [(k, v)]) k' # st') (out @ CHR '','' # txt) cs2)
               else if c = CHR ''}'' then read_end (JObject (fs @ [(k, v)])) st' (out @ ''}'') cs1
               else None))"
  by pat_completeness auto
termination
  apply (relation "measure (\<lambda>x. case x of Inl (st, out, cs) \<Rightarrow> length cs
                                    | Inr (v, st, out, cs) \<Rightarrow> length cs)")
  apply (auto dest!: skip_space_Cons_length read_key_length scan_string_length scan_number_length)
  done

definition json_Valid :: "bytes \<Rightarrow> bool" where
  "json_Valid b \<longleftrightarrow> read_value [] [] b \<noteq> None"

definition json_Compact :: "bytes \<Rightarrow> bytes option" where
  "json_Compact b = map_option fst (read_value [] [] b)"

definition json_Unmarshal :: "bytes \<Rightarrow> json option" where
  "json_Unmarshal b = map_option snd (read_value [] [] b)"

subsection \<open>Marshalling\<close>

fun commas :: "bytes list \<Rightarrow> bytes" where
  "commas [] = []"
| "commas [x] = x"
| "commas (x # y # ys) = x @ CHR '','' # commas (y # ys)"

text \<open>A JSON object with the given members, each value already encoded.\<close>

definition json_object :: "(string \<times> bytes) list \<Rightarrow> bytes" where
  "json_object ms =
     CHR ''{'' # commas (map (\<lambda>m. encodeString (fst m) @ CHR '':'' # snd m) ms) @ ''}''"

text \<open>
  \<^verbatim>\<open>json.Marshal\<close> of a JSON value. A \<^verbatim>\<open>json.Number\<close> must be a valid number literal;
  the empty one is written as \<open>0\<close>.
\<close>

fun encode :: "json \<Rightarrow> bytes" where
  "encode JNull = ''null''"
| "encode (JBool b) = (if b then ''true'' else ''false'')"
| "encode (JNumber n) = (if n = [] then ''0'' else n)"
| "encode (JString s) = encodeString s"
| "encode (JArray vs) = CHR ''['' # commas (map encode vs) @ '']''"
| "encode (JObject fs) = json_object (map (\<lambda>kv. (fst kv, encode (snd kv))) fs)"

fun encodable :: "json \<Rightarrow> bool" where
  "encodable (JNumber n) = (n = [] \<or> isValidNumber n)"
| "encodable (JArray vs) = list_all encodable vs"
| "encodable (JObject fs) = list_all (\<lambda>kv. encodable (snd kv)) fs"
| "encodable _ = True"

definition json_Marshal :: "json \<Rightarrow> bytes option" where
  "json_Marshal v = (if encodable v then Some (encode v) else None)"

section \<open>The package \<^verbatim>\<open>jsend\<close>\<close>

subsection \<open>The envelope\<close>

text \<open>
  \<^verbatim>\<open>type jsonResponse struct\<close>: \<open>Data\<close> is a \<^verbatim>\<open>json.RawMessage\<close>, a byte slice that
  \<^verbatim>\<open>json.Marshal\<close> copies into its output after checking and compacting it.
\<close>

record jsonResponse =
  Status :: string
  Data :: bytes
  Message :: string

text \<open>
  \<^verbatim>\<open>json.Marshal\<close> of a \<^verbatim>\<open>*jsonResponse\<close>. The struct tags decide the members:
  \<^verbatim>\<open>status\<close> always; \<^verbatim>\<open>data,omitempty\<close> unless the slice has length 0;
  \<^verbatim>\<open>message,omitempty\<close> unless the string is empty. Marshalling fails when \<open>Data\<close> is
  written and is not valid JSON.
\<close>

definition jsonResponse_members :: "jsonResponse \<Rightarrow> (string \<times> bytes) list option" where
  "jsonResponse_members r =
     (case (if Data r = [] then Some []
            else map_option (\<lambda>d. [(''data'', d)]) (json_Compact (Data r))) of
        None \<Rightarrow> None
      | Some dm \<Rightarrow>
          Some ([(''status'', encodeString (Status r))] @ dm
                @ (if Message r = [] then [] else [(''message'', encodeString (Message r))])))"

definition Marshal_jsonResponse :: "jsonResponse \<Rightarrow> bytes option" where
  "Marshal_jsonResponse r = map_option json_object (jsonResponse_members r)"

subsection \<open>The response writer\<close>

text \<open>
  \<^verbatim>\<open>http.Header\<close> is a map from a key to a list of values. \<^verbatim>\<open>Get\<close> answers the first
  value of a key, and the empty string when there is none; \<^verbatim>\<open>Set\<close> replaces the values
  of a key by one value. The only key of the package, \<^verbatim>\<open>Content-Type\<close>, is in canonical
  form already.
\<close>

type_synonym Header = "string \<Rightarrow> string list option"

definition Header_Get :: "Header \<Rightarrow> string \<Rightarrow> string" where
  "Header_Get h key = (case h key of None \<Rightarrow> [] | Some [] \<Rightarrow> [] | Some (v # _) \<Rightarrow> v)"

definition Header_Set :: "Header \<Rightarrow> string \<Rightarrow> string \<Rightarrow> Header" where
  "Header_Set h key v = h(key \<mapsto> [v])"

text \<open>
  \<^verbatim>\<open>http.ResponseWriter\<close> is an interface. The state of a writer is a record that has at
  least the header map that \<^verbatim>\<open>Header()\<close> answers (an implementation extends the record);
  its two other methods are a record of functions on that state. \<open>Write\<close> answers Go's
  pair of a byte count and an error, \<open>None\<close> for \<^verbatim>\<open>nil\<close>.
\<close>

record writer =
  header :: Header

record 'w ResponseWriter =
  WriteHeader :: "int \<Rightarrow> 'w \<Rightarrow> 'w"
  Write :: "bytes \<Rightarrow> 'w \<Rightarrow> (int \<times> error option) \<times> 'w"

subsection \<open>The direct encoders\<close>

definition writeJSONResponse ::
  "'w ResponseWriter \<Rightarrow> 'w \<Rightarrow> jsonResponse \<Rightarrow> (int \<times> error option) \<times> 'w" where
  "writeJSONResponse W w response =
     (case Marshal_jsonResponse response of
        None \<Rightarrow> ((0, Some ErrInvalidRawJSON), w)
      | Some resJSON \<Rightarrow> Write W resJSON w)"

text \<open>
  \<^verbatim>\<open>write\<close> (here \<open>write'\<close>). The payload \<open>data\<close> is an \<^verbatim>\<open>interface{}\<close>: \<open>None\<close> is \<^verbatim>\<open>nil\<close>, and
  \<open>marshal\<close> is \<^verbatim>\<open>json.Marshal\<close> on the values of the payload's type, \<open>None\<close> when it
  answers an error.
\<close>

definition write' ::
  "'a writer_scheme ResponseWriter \<Rightarrow> ('p \<Rightarrow> bytes option) \<Rightarrow> 'a writer_scheme \<Rightarrow> string \<Rightarrow> int
     \<Rightarrow> 'p option \<Rightarrow> string \<Rightarrow> (int \<times> error option) \<times> 'a writer_scheme" where
  "write' W marshal w status statusCode data error =
     (let res = \<lparr>Status = status, Data = [], Message = []\<rparr> in
      case (case data of
              None \<Rightarrow> Inr res
            | Some d \<Rightarrow>
                (case marshal d of
                   None \<Rightarrow> Inl ErrJSONEncode
                 | Some dataJSON \<Rightarrow> Inr (res\<lparr>Data := dataJSON\<rparr>))) of
        Inl e \<Rightarrow> ((0, Some e), w)
      | Inr res \<Rightarrow>
          let res = (if error \<noteq> [] then res\<lparr>Message := error\<rparr> else res);
              w = (if Header_Get (header w) ''Content-Type'' = []
                   then w\<lparr>header := Header_Set (header w) ''Content-Type'' ''application/json''\<rparr>
                   else w);
              w = WriteHeader W statusCode w
          in writeJSONResponse W w res)"

definition Success ::
  "'a writer_scheme ResponseWriter \<Rightarrow> ('p \<Rightarrow> bytes option) \<Rightarrow> 'a writer_scheme \<Rightarrow> 'p option \<Rightarrow> int
     \<Rightarrow> (int \<times> error option) \<times> 'a writer_scheme" where
  "Success W marshal w data code = write' W marshal w StatusSuccess code data []"

definition Error ::
  "'a writer_scheme ResponseWriter \<Rightarrow> 'a writer_scheme \<Rightarrow> string \<Rightarrow> int
     \<Rightarrow> (int \<times> error option) \<times> 'a writer_scheme" where
  "Error W w error code = write' W (\<lambda>d :: unit. None) w StatusError code None error"

definition Fail ::
  "'a writer_scheme ResponseWriter \<Rightarrow> ('p \<Rightarrow> bytes option) \<Rightarrow> 'a writer_scheme \<Rightarrow> 'p option \<Rightarrow> int
     \<Rightarrow> (int \<times> error option) \<times> 'a writer_scheme" where
  "Fail W marshal w data code = write' W marshal w StatusFail code data []"

subsection \<open>The decorator\<close>

text \<open>
  \<^verbatim>\<open>type response struct\<close>. The embedded mutex makes the calls of \<open>Write\<close> on one
  decorator run one after the other; the model is that sequence of calls.
\<close>

record 'w response =
  rw :: 'w
  code :: int
  written :: bool

definition Wrap :: "'a writer_scheme \<Rightarrow> 'a writer_scheme response" where
  "Wrap w =
     (let w = (if Header_Get (header w) ''Content-Type'' = []
               then w\<lparr>header := Header_Set (header w) ''Content-Type'' ''application/json''\<rparr>
               else w)
      in \<lparr>rw = w, code = 0, written = False\<rparr>)"

definition response_Header :: "'a writer_scheme response \<Rightarrow> Header" where
  "response_Header r = header (rw r)"

definition response_WriteHeader ::
  "'w ResponseWriter \<Rightarrow> int \<Rightarrow> 'w response \<Rightarrow> 'w response" where
  "response_WriteHeader W c r = (let r = r\<lparr>code := c\<rparr> in r\<lparr>rw := WriteHeader W c (rw r)\<rparr>)"

definition getStatus :: "int \<Rightarrow> string" where
  "getStatus c =
     (if c \<ge> 500 then StatusError
      else if c \<ge> 400 \<and> c < 500 then StatusFail
      else StatusSuccess)"

definition response_Write ::
  "'w ResponseWriter \<Rightarrow> bytes \<Rightarrow> 'w response \<Rightarrow> (int \<times> error option) \<times> 'w response" where
  "response_Write W data r =
     (if written r then ((0, Some ErrWrittenAlready), r)
      else
        let r = r\<lparr>written := True\<rparr>;
            st = getStatus (code r);
            jr = \<lparr>Status = st, Data = [], Message = []\<rparr>;
            jr = (if st = StatusError then jr\<lparr>Message := data\<rparr>
                  else if st = StatusFail then jr\<lparr>Data := data\<rparr>
                  else jr\<lparr>Data := data\<rparr>)
        in case writeJSONResponse W (rw r) jr of (res, w) \<Rightarrow> (res, r\<lparr>rw := w\<rparr>))"

subsection \<open>The recorder of the tests\<close>

text \<open>
  \<^verbatim>\<open>httptest.ResponseRecorder\<close>, the response writer of the package's tests:
  \<^verbatim>\<open>NewRecorder\<close> starts with code 200 and an empty body, \<open>WriteHeader\<close> keeps the first
  code it is given, \<open>Write\<close> appends to the body and answers the number of bytes.
\<close>

record recorder = writer +
  Code :: int
  Body :: bytes
  wroteHeader :: bool

definition NewRecorder :: recorder where
  "NewRecorder = \<lparr>header = Map.empty, Code = 200, Body = [], wroteHeader = False\<rparr>"

definition recorder_WriteHeader :: "int \<Rightarrow> recorder \<Rightarrow> recorder" where
  "recorder_WriteHeader c w = (if wroteHeader w then w else w\<lparr>Code := c, wroteHeader := True\<rparr>)"

definition recorder_Write :: "bytes \<Rightarrow> recorder \<Rightarrow> (int \<times> error option) \<times> recorder" where
  "recorder_Write buf w =
     (let w = recorder_WriteHeader 200 w
      in ((int (length buf), None), w\<lparr>Body := Body w @ buf\<rparr>))"

definition Recorder :: "recorder ResponseWriter" where
  "Recorder = \<lparr>WriteHeader = recorder_WriteHeader, Write = recorder_Write\<rparr>"

subsection \<open>Sequences of calls\<close>

text \<open>
  What a handler does with a decorator: it calls \<open>Write\<close>, \<open>WriteHeader\<close> and
  \<open>Header().Set\<close>, in any order. \<open>run\<close> makes the calls one after the other and answers
  the results of the calls of \<open>Write\<close>, in their order, and the decorator at the end.
\<close>

datatype call = CallWrite bytes | CallWriteHeader int | CallHeaderSet string string

fun is_Write :: "call \<Rightarrow> bool" where
  "is_Write (CallWrite d) = True"
| "is_Write _ = False"

fun run ::
  "'a writer_scheme ResponseWriter \<Rightarrow> call list \<Rightarrow> 'a writer_scheme response
     \<Rightarrow> (int \<times> error option) list \<times> 'a writer_scheme response" where
  "run W [] r = ([], r)"
| "run W (CallWrite d # cs) r =
     (case response_Write W d r of
        (res, r1) \<Rightarrow> (case run W cs r1 of (rs, r2) \<Rightarrow> (res # rs, r2)))"
| "run W (CallWriteHeader c # cs) r = run W cs (response_WriteHeader W c r)"
| "run W (CallHeaderSet k v # cs) r =
     run W cs (r\<lparr>rw := (rw r)\<lparr>header := Header_Set (response_Header r) k v\<rparr>\<rparr>)"

subsection \<open>The default content type\<close>

text \<open>
  A writer keeps the header map when its own methods \<open>WriteHeader\<close> and \<open>Write\<close> do
  not change it, as the recorder does.
\<close>

definition keeps_header :: "'a writer_scheme ResponseWriter \<Rightarrow> bool" where
  "keeps_header W \<longleftrightarrow>
     (\<forall>c w. header (WriteHeader W c w) = header w) \<and> (\<forall>b w. header (snd (Write W b w)) = header w)"

text \<open>
  The rule of the specification for the content type: \<^verbatim>\<open>application/json\<close> is set only
  if no content type is there, where "there" is what the package tests, a non-empty answer
  of \<^verbatim>\<open>Header().Get("Content-Type")\<close>.
\<close>

definition content_type :: "Header \<Rightarrow> Header" where
  "content_type h =
     (if Header_Get h ''Content-Type'' = [] then Header_Set h ''Content-Type'' ''application/json''
      else h)"

section \<open>The write-once state machine\<close>

lemma response_Write_rejected:
  "written r \<Longrightarrow> response_Write W d r = ((0, Some ErrWrittenAlready), r)"
  by (simp add: response_Write_def)

lemma response_Write_written: "written (snd (response_Write W d r))"
  by (simp add: response_Write_def Let_def split: prod.split)

lemma response_WriteHeader_written: "written (response_WriteHeader W c r) = written r"
  by (simp add: response_WriteHeader_def)

lemma run_keeps_written: "written r \<Longrightarrow> written (snd (run W cs r))"
proof (induction cs arbitrary: r)
  case Nil
  then show ?case by simp
next
  case (Cons c cs)
  show ?case
  proof (cases c)
    case (CallWrite d)
    with Cons.IH [of r] Cons.prems show ?thesis
      by (auto simp: response_Write_rejected split: prod.split)
  next
    case (CallWriteHeader n)
    with Cons.IH [of "response_WriteHeader W n r"] Cons.prems show ?thesis
      by (simp add: response_WriteHeader_written)
  next
    case (CallHeaderSet k v)
    with Cons.IH [of "r\<lparr>rw := (rw r)\<lparr>header := Header_Set (response_Header r) k v\<rparr>\<rparr>"] Cons.prems
    show ?thesis by simp
  qed
qed

lemma run_rejects:
  "written r \<Longrightarrow>
     run W cs r = (replicate (length (filter is_Write cs)) (0, Some ErrWrittenAlready),
                   snd (run W (filter (\<lambda>c. \<not> is_Write c) cs) r))"
proof (induction cs arbitrary: r)
  case Nil
  then show ?case by simp
next
  case (Cons c cs)
  show ?case
  proof (cases c)
    case (CallWrite d)
    with Cons.IH [of r] Cons.prems show ?thesis
      by (simp add: response_Write_rejected)
  next
    case (CallWriteHeader n)
    with Cons.IH [of "response_WriteHeader W n r"] Cons.prems show ?thesis
      by (simp add: response_WriteHeader_written)
  next
    case (CallHeaderSet k v)
    with Cons.IH [of "r\<lparr>rw := (rw r)\<lparr>header := Header_Set (response_Header r) k v\<rparr>\<rparr>"] Cons.prems
    show ?thesis by simp
  qed
qed

lemma run_only_writes:
  "written r \<Longrightarrow> run W (map CallWrite ds) r = (replicate (length ds) (0, Some ErrWrittenAlready), r)"
  by (induction ds) (simp_all add: response_Write_rejected)

section \<open>What the decorator and the encoders hand to the writer\<close>

lemma json_Valid_Compact: "json_Valid d \<longleftrightarrow> json_Compact d \<noteq> None"
  by (simp add: json_Valid_def json_Compact_def)

lemma Marshal_no_data:
  "Marshal_jsonResponse \<lparr>Status = st, Data = [], Message = m\<rparr> =
     Some (json_object ((''status'', encodeString st)
             # (if m = [] then [] else [(''message'', encodeString m)])))"
  by (simp add: Marshal_jsonResponse_def jsonResponse_members_def)

lemma Marshal_data_invalid:
  "d \<noteq> [] \<Longrightarrow> \<not> json_Valid d \<Longrightarrow> Marshal_jsonResponse \<lparr>Status = st, Data = d, Message = m\<rparr> = None"
  by (simp add: Marshal_jsonResponse_def jsonResponse_members_def json_Valid_Compact)

lemma Marshal_data_valid:
  "d \<noteq> [] \<Longrightarrow> json_Compact d = Some c \<Longrightarrow>
     Marshal_jsonResponse \<lparr>Status = st, Data = d, Message = m\<rparr> =
       Some (json_object ((''status'', encodeString st) # (''data'', c)
               # (if m = [] then [] else [(''message'', encodeString m)])))"
  by (simp add: Marshal_jsonResponse_def jsonResponse_members_def)

lemma status_tags_distinct:
  "StatusError \<noteq> StatusFail" "StatusError \<noteq> StatusSuccess" "StatusFail \<noteq> StatusSuccess"
  by (simp_all add: StatusError_def StatusFail_def StatusSuccess_def)



lemma response_Write_empty:
  assumes "\<not> written r" and "code r < 500"
  shows "response_Write W [] r =
     (case Write W (json_object [(''status'', encodeString (getStatus (code r)))]) (rw r) of
        (res, w) \<Rightarrow> (res, r\<lparr>rw := w, written := True\<rparr>))"
  using assms
  by (simp add: response_Write_def getStatus_def writeJSONResponse_def Marshal_no_data
      status_tags_distinct status_tags_distinct [symmetric] split: prod.split)

lemma response_Write_invalid:
  assumes "\<not> written r" and "code r < 500" and "data \<noteq> []" and "\<not> json_Valid data"
  shows "response_Write W data r = ((0, Some ErrInvalidRawJSON), r\<lparr>written := True\<rparr>)"
  using assms
  by (simp add: response_Write_def getStatus_def writeJSONResponse_def Marshal_data_invalid
      status_tags_distinct status_tags_distinct [symmetric] split: prod.split)

lemma response_Write_valid:
  assumes "\<not> written r" and "code r < 500" and "data \<noteq> []" and "json_Compact data = Some c"
  shows "response_Write W data r =
     (case Write W (json_object [(''status'', encodeString (getStatus (code r))), (''data'', c)]) (rw r) of
        (res, w) \<Rightarrow> (res, r\<lparr>rw := w, written := True\<rparr>))"
  using assms
  by (simp add: response_Write_def getStatus_def writeJSONResponse_def Marshal_data_valid
      status_tags_distinct status_tags_distinct [symmetric] split: prod.split)

lemma getStatus_cases:
  "getStatus c = (if 500 \<le> c then ''error'' else if 400 \<le> c then ''fail'' else ''success'')"
  by (simp add: getStatus_def StatusError_def StatusFail_def StatusSuccess_def)

lemma write'_marshal_error:
  "marshal p = None \<Longrightarrow> write' W marshal w st c (Some p) err = ((0, Some ErrJSONEncode), w)"
  by (simp add: write'_def)

lemma write'_nil:
  "write' W marshal w st c None err =
     writeJSONResponse W (WriteHeader W c (w\<lparr>header := content_type (header w)\<rparr>))
       \<lparr>Status = st, Data = [], Message = err\<rparr>"
  by (simp add: write'_def content_type_def Let_def)

lemma write'_marshalled:
  "marshal p = Some b \<Longrightarrow>
     write' W marshal w st c (Some p) err =
       writeJSONResponse W (WriteHeader W c (w\<lparr>header := content_type (header w)\<rparr>))
         \<lparr>Status = st, Data = b, Message = err\<rparr>"
  by (simp add: write'_def content_type_def Let_def)

lemma writeJSONResponse_header:
  "keeps_header W \<Longrightarrow> header (snd (writeJSONResponse W w jr)) = header w"
  by (simp add: writeJSONResponse_def keeps_header_def split: option.split)

lemma write'_header:
  assumes "keeps_header W" and "data = None \<or> (\<exists>p b. data = Some p \<and> marshal p = Some b)"
  shows "header (snd (write' W marshal w st c data err)) = content_type (header w)"
proof (cases data)
  case None
  with assms(1) show ?thesis
    by (simp add: write'_nil writeJSONResponse_header) (simp add: keeps_header_def)
next
  case (Some p)
  with assms(2) obtain b where "marshal p = Some b" by auto
  with Some assms(1) show ?thesis
    by (simp add: write'_marshalled writeJSONResponse_header) (simp add: keeps_header_def)
qed

lemma keeps_header_Recorder: "keeps_header Recorder"
  by (simp add: keeps_header_def Recorder_def recorder_WriteHeader_def recorder_Write_def Let_def)

lemma content_type_other: "k \<noteq> ''Content-Type'' \<Longrightarrow> content_type h k = h k"
  by (simp add: content_type_def Header_Set_def)

lemma content_type_Get:
  "Header_Get (content_type h) ''Content-Type'' =
     (if Header_Get h ''Content-Type'' = [] then ''application/json'' else Header_Get h ''Content-Type'')"
  by (simp add: content_type_def Header_Set_def Header_Get_def)

lemma Wrap_rw: "rw (Wrap w) = w\<lparr>header := content_type (header w)\<rparr>"
  by (simp add: Wrap_def content_type_def Let_def)

section \<open>The recorder at work\<close>

lemma Wrap_NewRecorder:
  "Wrap NewRecorder =
     \<lparr>rw = \<lparr>header = [''Content-Type'' \<mapsto> ''application/json'' # []], Code = 200, Body = [],
             wroteHeader = False\<rparr>,
      code = 0, written = False\<rparr>"
  by (simp add: Wrap_def NewRecorder_def Header_Get_def Header_Set_def)

lemma compact_hello: \<open>json_Compact ''"hello"'' = Some ''"hello"''\<close>
  by code_simp

lemma envelope_hello:
  \<open>json_object [(''status'', encodeString ''success''), (''data'', ''"hello"'')]
     = ''{"status":"success","data":"hello"}''\<close>
  by code_simp

lemma first_hello:
  \<open>response_Write Recorder ''"hello"'' (Wrap NewRecorder) =
     ((35, None),
      \<lparr>rw = \<lparr>header = [''Content-Type'' \<mapsto> ''application/json'' # []], Code = 200,
              Body = ''{"status":"success","data":"hello"}'', wroteHeader = True\<rparr>,
       code = 0, written = True\<rparr>)\<close>
  by (simp add: response_Write_valid [OF _ _ _ compact_hello] Wrap_NewRecorder getStatus_def
      StatusSuccess_def envelope_hello Recorder_def recorder_Write_def recorder_WriteHeader_def)

lemma invalid_some: \<open>\<not> json_Valid ''some invalid json''\<close>
  by code_simp

lemma first_invalid:
  \<open>response_Write Recorder ''some invalid json'' (Wrap NewRecorder)
     = ((0, Some ErrInvalidRawJSON), (Wrap NewRecorder)\<lparr>written := True\<rparr>)\<close>
  by (rule response_Write_invalid) (simp_all add: Wrap_NewRecorder invalid_some)

lemma empty_not_valid: "\<not> json_Valid []"
  by (simp add: json_Valid_def read_value.simps skip_space_def)

lemma envelope_success: \<open>json_object [(''status'', encodeString ''success'')] = ''{"status":"success"}''\<close>
  by code_simp


lemma envelope_fail: \<open>json_object [(''status'', encodeString ''fail'')] = ''{"status":"fail"}''\<close>
  by code_simp

lemma WriteHeader_Wrap_NewRecorder:
  "response_WriteHeader Recorder c (Wrap NewRecorder) =
     \<lparr>rw = \<lparr>header = [''Content-Type'' \<mapsto> ''application/json'' # []], Code = c, Body = [],
             wroteHeader = True\<rparr>,
      code = c, written = False\<rparr>"
  by (simp add: response_WriteHeader_def Wrap_NewRecorder Recorder_def recorder_WriteHeader_def)

section \<open>Classification of status codes\<close>

text \<open>
  Claim C1. For every status code \<open>c\<close>, \<open>getStatus\<close> (the classification that the
  decorator's \<open>Write\<close> uses) answers the tag \<open>error\<close> exactly when \<open>c \<ge> 500\<close>, the tag
  \<open>fail\<close> exactly when \<open>400 \<le> c < 500\<close>, and the tag \<open>success\<close> exactly in every other
  case.
\<close>

theorem getStatus_classification:
  "(getStatus c = StatusError \<longleftrightarrow> 500 \<le> c)
   \<and> (getStatus c = StatusFail \<longleftrightarrow> 400 \<le> c \<and> c < 500)
   \<and> (getStatus c = StatusSuccess \<longleftrightarrow> \<not> 500 \<le> c \<and> \<not> (400 \<le> c \<and> c < 500))"
  by (simp add: getStatus_def StatusError_def StatusFail_def StatusSuccess_def)

theorem getStatus_classification_witness:
  "getStatus 0 = StatusSuccess \<and> getStatus (- 1) = StatusSuccess \<and> getStatus 100 = StatusSuccess
   \<and> getStatus 200 = StatusSuccess \<and> getStatus 302 = StatusSuccess \<and> getStatus 399 = StatusSuccess
   \<and> getStatus 400 = StatusFail \<and> getStatus 499 = StatusFail
   \<and> getStatus 500 = StatusError \<and> getStatus 503 = StatusError"
  using getStatus_classification [of 0] getStatus_classification [of "- 1"]
    getStatus_classification [of 100] getStatus_classification [of 200]
    getStatus_classification [of 302] getStatus_classification [of 399]
    getStatus_classification [of 400] getStatus_classification [of 499]
    getStatus_classification [of 500] getStatus_classification [of 503]
  by simp

section \<open>Write once\<close>

text \<open>
  Claim C2. Take any decorator, and let a call of \<open>Write\<close> be made on it. In every sequence
  of calls that follows, every call of \<open>Write\<close>, whatever its bytes, answers
  \<open>(0, ErrWrittenAlready)\<close>, and the decorator and its writer end as if those calls of
  \<open>Write\<close> had not been made: nothing is written to the underlying writer. When only calls
  of \<open>Write\<close> follow, the decorator and its writer stay as the first call left them.
\<close>

theorem write_once:
  "run W cs (snd (response_Write W d r)) =
     (replicate (length (filter is_Write cs)) (0, Some ErrWrittenAlready),
      snd (run W (filter (\<lambda>c. \<not> is_Write c) cs) (snd (response_Write W d r))))
   \<and> run W (map CallWrite ds) (snd (response_Write W d r)) =
     (replicate (length ds) (0, Some ErrWrittenAlready), snd (response_Write W d r))"
  using run_rejects [OF response_Write_written, where W = W and cs = cs]
    run_only_writes [OF response_Write_written, where W = W and ds = ds]
  by blast

text \<open>
  The test \<^verbatim>\<open>TestMultipleWrite\<close>: the second call is refused and the body is that of the
  first.
\<close>

theorem write_once_witness:
  \<open>run Recorder [CallWrite ''"hello"'', CallWrite ''"world"''] (Wrap NewRecorder) =
     ([(35, None), (0, Some ErrWrittenAlready)],
      snd (response_Write Recorder ''"hello"'' (Wrap NewRecorder)))
   \<and> Body (rw (snd (run Recorder [CallWrite ''"hello"'', CallWrite ''"world"''] (Wrap NewRecorder))))
       = ''{"status":"success","data":"hello"}''\<close>
  using write_once [of Recorder "[CallWrite [dq, CHR ''w'', CHR ''o'', CHR ''r'', CHR ''l'', CHR ''d'', dq]]"
      "[dq, CHR ''h'', CHR ''e'', CHR ''l'', CHR ''l'', CHR ''o'', dq]" "Wrap NewRecorder" "[]"]
  by (simp add: first_hello dq_def)

section \<open>Raw bytes that are not JSON\<close>

text \<open>
  Claim C3, as amended. On a decorator that has not been written to and whose status code
  classifies as \<open>success\<close> or \<open>fail\<close>, a call of \<open>Write\<close> whose bytes are not empty and
  are not valid JSON answers \<open>(0, ErrInvalidRawJSON)\<close>, and the underlying writer is left
  as it was: nothing is written to it.
\<close>

theorem invalid_raw_json:
  assumes "\<not> written r"
    and "getStatus (code r) = StatusSuccess \<or> getStatus (code r) = StatusFail"
    and "data \<noteq> []"
    and "\<not> json_Valid data"
  shows "response_Write W data r = ((0, Some ErrInvalidRawJSON), r\<lparr>written := True\<rparr>)"
proof -
  from assms(2) have "code r < 500"
    by (auto simp: getStatus_def status_tags_distinct split: if_splits)
  with assms show ?thesis by (simp add: response_Write_invalid)
qed

theorem invalid_raw_json_witness:
  \<open>response_Write Recorder ''some invalid json'' (response_WriteHeader Recorder 200 (Wrap NewRecorder))
     = ((0, Some ErrInvalidRawJSON), (response_WriteHeader Recorder 200 (Wrap NewRecorder))\<lparr>written := True\<rparr>)
   \<and> Body (rw (snd (response_Write Recorder ''some invalid json''
                      (response_WriteHeader Recorder 200 (Wrap NewRecorder))))) = []\<close>
proof -
  let ?r = "response_WriteHeader Recorder 200 (Wrap NewRecorder)"
  have 1: "\<not> written ?r"
    by (simp add: response_WriteHeader_written Wrap_NewRecorder)
  have 2: "getStatus (code ?r) = StatusSuccess \<or> getStatus (code ?r) = StatusFail"
    by (simp add: response_WriteHeader_def getStatus_def)
  have 3: "''some invalid json'' \<noteq> []" by simp
  have 4: "Body (rw ?r) = []"
    by (simp add: response_WriteHeader_def Wrap_NewRecorder Recorder_def recorder_WriteHeader_def)
  show ?thesis
    using invalid_raw_json [OF 1 2 3 invalid_some, of Recorder] 4 by simp
qed

text \<open>
  The claim as it was stated fails for the empty byte string: it is not valid JSON, and
  yet the call succeeds and writes the 20 bytes of an envelope without \<open>data\<close>.
\<close>

theorem invalid_raw_json_counterexample:
  \<open>\<not> json_Valid []
   \<and> getStatus (code (response_WriteHeader Recorder 200 (Wrap NewRecorder))) = StatusSuccess
   \<and> fst (response_Write Recorder [] (response_WriteHeader Recorder 200 (Wrap NewRecorder))) = (20, None)
   \<and> Body (rw (snd (response_Write Recorder [] (response_WriteHeader Recorder 200 (Wrap NewRecorder)))))
       = ''{"status":"success"}''\<close>
proof -
  let ?r = "response_WriteHeader Recorder 200 (Wrap NewRecorder)"
  have 1: "\<not> written ?r"
    by (simp add: response_WriteHeader_written Wrap_NewRecorder)
  have 2: "code ?r < 500" by (simp add: response_WriteHeader_def)
  have 3: "getStatus (code ?r) = StatusSuccess"
    by (simp add: response_WriteHeader_def getStatus_def)
  have 4: "Body (rw ?r) = []"
    by (simp add: response_WriteHeader_def Wrap_NewRecorder Recorder_def recorder_WriteHeader_def)
  show ?thesis
    using response_Write_empty [OF 1 2, of Recorder] 3 4
    by (simp add: empty_not_valid StatusSuccess_def envelope_success Recorder_def recorder_Write_def
        recorder_WriteHeader_def split: prod.splits)
qed

section \<open>The flag is set before any output\<close>

text \<open>
  Claim C4. Every call of \<open>Write\<close>, on any writer and with any bytes, leaves the flag
  \<open>written\<close> set, whether the call succeeds, fails with \<open>ErrInvalidRawJSON\<close> or the
  underlying writer fails: the flag is set before anything is handed to the writer. After
  that, in every sequence of later calls the flag stays set and every call of \<open>Write\<close>
  answers \<open>(0, ErrWrittenAlready)\<close>.
\<close>

theorem written_before_io:
  "written (snd (response_Write W d r))
   \<and> written (snd (run W cs (snd (response_Write W d r))))
   \<and> fst (run W cs (snd (response_Write W d r)))
       = replicate (length (filter is_Write cs)) (0, Some ErrWrittenAlready)"
  using run_rejects [OF response_Write_written, where W = W and cs = cs]
    run_keeps_written [OF response_Write_written, where W = W and cs = cs]
    response_Write_written [of W d r]
  by simp

text \<open>A first call that fails with \<open>ErrInvalidRawJSON\<close> has used up the one write.\<close>

theorem written_before_io_witness:
  \<open>fst (response_Write Recorder ''some invalid json'' (Wrap NewRecorder)) = (0, Some ErrInvalidRawJSON)
   \<and> fst (run Recorder [CallWriteHeader 200, CallWrite ''"ok"'', CallWrite ''{}'']
            (snd (response_Write Recorder ''some invalid json'' (Wrap NewRecorder))))
       = [(0, Some ErrWrittenAlready), (0, Some ErrWrittenAlready)]
   \<and> written (snd (response_Write Recorder ''some invalid json'' (Wrap NewRecorder)))\<close>
  using written_before_io [where W = Recorder and r = "Wrap NewRecorder"
      and d = "''some invalid json''" and cs = "[CallWriteHeader 200, CallWrite [dq, CHR ''o'', CHR ''k'', dq], CallWrite ''{}'']"]
  by (simp add: first_invalid dq_def)

section \<open>A payload that cannot be marshalled\<close>

text \<open>
  Claim C5. For every writer and every payload that \<^verbatim>\<open>json.Marshal\<close> rejects, the
  direct encoders \<open>Success\<close> and \<open>Fail\<close> answer \<open>(0, ErrJSONEncode)\<close> and leave the
  writer exactly as it was: no body byte is written, no status code is set, no header is
  changed.
\<close>

theorem marshal_error_writes_nothing:
  "marshal p = None \<Longrightarrow>
     Success W marshal w (Some p) c = ((0, Some ErrJSONEncode), w)
     \<and> Fail W marshal w (Some p) c = ((0, Some ErrJSONEncode), w)"
  by (simp add: Success_def Fail_def write'_marshal_error)

lemma not_encodable: "json_Marshal (JNumber ''abc'') = None"
  by (simp add: json_Marshal_def isValidNumber_def scan_number_def scan_sign_def scan_int_def is_digit_def)

theorem marshal_error_writes_nothing_witness:
  "json_Marshal (JNumber ''abc'') = None
   \<and> Success Recorder json_Marshal NewRecorder (Some (JNumber ''abc'')) 200
       = ((0, Some ErrJSONEncode), NewRecorder)
   \<and> Fail Recorder json_Marshal NewRecorder (Some (JNumber ''abc'')) 400
       = ((0, Some ErrJSONEncode), NewRecorder)"
  using marshal_error_writes_nothing [of json_Marshal "JNumber ''abc''" Recorder NewRecorder 200]
    marshal_error_writes_nothing [of json_Marshal "JNumber ''abc''" Recorder NewRecorder 400]
  by (simp add: not_encodable)

section \<open>The message of an error\<close>



section \<open>Empty raw bytes\<close>

text \<open>
  Claim C10. On a decorator that has not been written to and whose status code classifies
  as \<open>success\<close> or \<open>fail\<close>, a call of \<open>Write\<close> with no bytes does not fail with
  \<open>ErrInvalidRawJSON\<close>, although the empty byte string is not valid JSON: it hands to the
  underlying writer the envelope that has the member \<open>status\<close> only, and answers what the
  writer answers.
\<close>

theorem empty_data_is_omitted:
  assumes "\<not> written r"
    and "getStatus (code r) = StatusSuccess \<or> getStatus (code r) = StatusFail"
  shows "\<not> json_Valid []
    \<and> response_Write W [] r =
        (case Write W (json_object [(''status'', encodeString (getStatus (code r)))]) (rw r) of
           (res, w) \<Rightarrow> (res, r\<lparr>rw := w, written := True\<rparr>))"
proof -
  from assms(2) have "code r < 500"
    by (auto simp: getStatus_def status_tags_distinct split: if_splits)
  with assms(1) show ?thesis by (simp add: response_Write_empty empty_not_valid)
qed

theorem empty_data_is_omitted_witness:
  \<open>fst (response_Write Recorder [] (Wrap NewRecorder)) = (20, None)
   \<and> Body (rw (snd (response_Write Recorder [] (Wrap NewRecorder)))) = ''{"status":"success"}''
   \<and> fst (response_Write Recorder [] (response_WriteHeader Recorder 404 (Wrap NewRecorder))) = (17, None)
   \<and> Body (rw (snd (response_Write Recorder [] (response_WriteHeader Recorder 404 (Wrap NewRecorder)))))
       = ''{"status":"fail"}''\<close>
proof -
  let ?r = "response_WriteHeader Recorder 404 (Wrap NewRecorder)"
  have 1: "\<not> written ?r" "\<not> written (Wrap NewRecorder)"
    by (simp_all add: response_WriteHeader_written Wrap_NewRecorder)
  have 2: "getStatus (code ?r) = StatusSuccess \<or> getStatus (code ?r) = StatusFail"
    "getStatus (code (Wrap NewRecorder)) = StatusSuccess \<or> getStatus (code (Wrap NewRecorder)) = StatusFail"
    by (simp_all add: response_WriteHeader_def getStatus_def Wrap_NewRecorder)
  have a: "response_Write Recorder [] (Wrap NewRecorder) =
      ((20, None), (Wrap NewRecorder)\<lparr>rw := (rw (Wrap NewRecorder))
          \<lparr>Code := 200, Body := json_object [(''status'', encodeString ''success'')], wroteHeader := True\<rparr>,
        written := True\<rparr>)"
    using empty_data_is_omitted [OF 1(2) 2(2), of Recorder]
    unfolding Wrap_NewRecorder
    by (simp add: getStatus_cases envelope_success Recorder_def recorder_Write_def
        recorder_WriteHeader_def)
  have b: "response_Write Recorder [] ?r =
      ((17, None), ?r\<lparr>rw := (rw ?r)\<lparr>Body := json_object [(''status'', encodeString ''fail'')]\<rparr>,
        written := True\<rparr>)"
    using empty_data_is_omitted [OF 1(1) 2(1), of Recorder]
    unfolding WriteHeader_Wrap_NewRecorder
    by (simp add: getStatus_cases envelope_fail Recorder_def
        recorder_Write_def recorder_WriteHeader_def)
  show ?thesis
    by (simp add: a b envelope_success envelope_fail)
qed

end
